theory Spec2Isabelle
  imports
    Complex_Main
    "HOL-Library.Char_ord"
    "HOL-Library.List_Lexorder"
    "HOL-Library.Option_ord"
    "HOL-Library.Multiset"
    "HOL-Library.AList"
begin

section \<open>Numbers\<close>

text \<open>
  SQLite \<^verbatim>\<open>REAL\<close> columns and Python \<^verbatim>\<open>float\<close> values are idealised as exact
  rationals; Python \<^verbatim>\<open>int\<close> is \<^typ>\<open>int\<close>. Binary rounding error of IEEE doubles is
  therefore outside this development. The literal \<^verbatim>\<open>0.1\<close> is \<open>1/10\<close>.

  Python's \<^verbatim>\<open>round(x, 2)\<close> and the format \<^verbatim>\<open>:.2f\<close> round the exact value to the
  nearest multiple of \<open>1/100\<close>, a tie going to the even neighbour.
\<close>

definition round_half_even :: "rat \<Rightarrow> int" where
  "round_half_even x =
     (let f = \<lfloor>x\<rfloor>; d = x - of_int f
      in if d < 1 / 2 then f
         else if 1 / 2 < d then f + 1
         else if even f then f else f + 1)"

definition py_round :: "rat \<Rightarrow> nat \<Rightarrow> rat" where
  "py_round x n = of_int (round_half_even (x * 10 ^ n)) / 10 ^ n"

section \<open>The relational backend: database.py\<close>

text \<open>
  One row of the table \<^verbatim>\<open>productos\<close>. The table is the list of its rows in rowid
  order; \<open>secuencia\<close> is the largest id ever handed out (\<^verbatim>\<open>AUTOINCREMENT\<close>).
  The clock reading \<^verbatim>\<open>datetime.now()\<close> is an argument of the operations that use it.
  Failures of the environment (an unreadable database file) are not modelled.
\<close>

record fila =
  id_fila :: nat
  nombre :: string
  cantidad :: rat
  cantidad_inicial :: rat
  precio :: rat
  categoria :: string
  fecha_creacion :: string
  fecha_actualizacion :: string

record database =
  productos :: "fila list"
  secuencia :: nat

datatype mensaje =
    Agregado string
  | YaExiste string
  | NoExiste string
  | ActualizadoCantidadPrecio string rat rat
  | ActualizadaCantidad string rat
  | ActualizadoPrecio string rat
  | FaltanCampos
  | Eliminado string

record resultado =
  success :: bool
  message :: mensaje
  producto_id :: "nat option"

definition init_db :: database where
  "init_db = \<lparr>productos = [], secuencia = 0\<rparr>"

definition existe :: "database \<Rightarrow> string \<Rightarrow> bool" where
  "existe db nom = (nom \<in> set (map nombre (productos db)))"

definition siguiente_id :: "database \<Rightarrow> nat" where
  "siguiente_id db = Suc (foldr max (map id_fila (productos db)) (secuencia db))"

text \<open>
  \<^verbatim>\<open>insertar_producto\<close>: the \<^verbatim>\<open>UNIQUE\<close> constraint on \<^verbatim>\<open>nombre\<close> raises
  \<^verbatim>\<open>IntegrityError\<close>, which the method turns into a failure result; nothing is written.
  The optional argument \<^verbatim>\<open>categoria\<close> defaults to \<^verbatim>\<open>"General"\<close>.
\<close>

definition insertar_producto ::
  "database \<Rightarrow> string \<Rightarrow> rat \<Rightarrow> rat \<Rightarrow> string option \<Rightarrow> string \<Rightarrow> resultado \<times> database" where
  "insertar_producto db nom cant prec cat fecha_actual =
     (if existe db nom
      then (\<lparr>success = False, message = YaExiste nom, producto_id = None\<rparr>, db)
      else
        let pid = siguiente_id db;
            r = \<lparr>id_fila = pid, nombre = nom, cantidad = cant, cantidad_inicial = cant,
                 precio = prec,
                 categoria = (case cat of None \<Rightarrow> ''General'' | Some c \<Rightarrow> c),
                 fecha_creacion = fecha_actual, fecha_actualizacion = fecha_actual\<rparr>
        in (\<lparr>success = True, message = Agregado nom, producto_id = Some pid\<rparr>,
            db\<lparr>productos := productos db @ [r], secuencia := pid\<rparr>))"













text \<open>
  \<^verbatim>\<open>listar_productos\<close>: \<^verbatim>\<open>ORDER BY nombre\<close> under SQLite's default \<^verbatim>\<open>BINARY\<close>
  collation, the lexicographic order of the UTF-8 bytes.
\<close>

definition listar_productos :: "database \<Rightarrow> (string \<times> rat \<times> rat \<times> rat \<times> string) list" where
  "listar_productos db =
     map (\<lambda>r. (nombre r, cantidad r, cantidad_inicial r, precio r, categoria r))
       (sort_key nombre (productos db))"


section \<open>The JSON backend and the conversation: bot.py\<close>

subsection \<open>Reading numbers\<close>

text \<open>
  \<^verbatim>\<open>int(text)\<close>: surrounding whitespace is dropped, then an optional sign and decimal
  digits, single underscores allowed between digits. \<^verbatim>\<open>float(text)\<close>: the same with an
  optional fraction and exponent. Both raise \<^verbatim>\<open>ValueError\<close> otherwise (\<open>None\<close> here).
  Only ASCII whitespace and digits are read. The words that Python reads as an infinity
  or a NaN have no rational value and count as unreadable in this model; a decimal is
  read as its exact value, without the rounding or overflow of a double.
\<close>

definition es_espacio :: "char \<Rightarrow> bool" where
  "es_espacio c = (of_char c \<in> {9, 10, 11, 12, 13, 28, 29, 30, 31, 32 :: nat})"

definition strip :: "string \<Rightarrow> string" where
  "strip s = rev (dropWhile es_espacio (rev (dropWhile es_espacio s)))"

definition es_digito :: "char \<Rightarrow> bool" where
  "es_digito c = (48 \<le> (of_char c :: nat) \<and> (of_char c :: nat) \<le> 57)"

fun leer_digitos :: "bool \<Rightarrow> string \<Rightarrow> nat list option" where
  "leer_digitos prev [] = (if prev then Some [] else None)"
| "leer_digitos prev (c # cs) =
     (if es_digito c
      then map_option (\<lambda>ds. (of_char c - 48) # ds) (leer_digitos True cs)
      else if c = CHR ''_'' \<and> prev then leer_digitos False cs
      else None)"

definition valor_digitos :: "nat list \<Rightarrow> nat" where
  "valor_digitos ds = foldl (\<lambda>a d. 10 * a + d) 0 ds"

definition leer_signo :: "string \<Rightarrow> bool \<times> string" where
  "leer_signo s =
     (case s of
        [] \<Rightarrow> (False, [])
      | c # cs \<Rightarrow> if c = CHR ''-'' then (True, cs) else if c = CHR ''+'' then (False, cs) else (False, s))"

definition leer_entero :: "string \<Rightarrow> int option" where
  "leer_entero s =
     (let (neg, r) = leer_signo s
      in map_option (\<lambda>ds. if neg then - int (valor_digitos ds) else int (valor_digitos ds))
           (leer_digitos False r))"

definition py_int :: "string \<Rightarrow> int option" where
  "py_int texto = leer_entero (strip texto)"

definition es_e :: "char \<Rightarrow> bool" where
  "es_e c = (c = CHR ''e'' \<or> c = CHR ''E'')"

definition leer_mantisa :: "string \<Rightarrow> rat option" where
  "leer_mantisa s =
     (let ent = takeWhile (\<lambda>c. c \<noteq> CHR ''.'') s;
          resto = dropWhile (\<lambda>c. c \<noteq> CHR ''.'') s;
          frac = (case resto of [] \<Rightarrow> [] | _ # f \<Rightarrow> f)
      in if ent = [] \<and> frac = [] then None
         else
           (case (if ent = [] then Some [] else leer_digitos False ent,
                  if frac = [] then Some [] else leer_digitos False frac) of
              (Some e, Some f) \<Rightarrow>
                Some (of_nat (valor_digitos e) + of_nat (valor_digitos f) / 10 ^ length f)
            | _ \<Rightarrow> None))"

definition py_float :: "string \<Rightarrow> rat option" where
  "py_float texto =
     (let (neg, r) = leer_signo (strip texto);
          man = takeWhile (\<lambda>c. \<not> es_e c) r;
          ex = dropWhile (\<lambda>c. \<not> es_e c) r;
          e = (case ex of [] \<Rightarrow> Some 0 | _ # x \<Rightarrow> leer_entero x)
      in case (leer_mantisa man, e) of
           (Some m, Some k) \<Rightarrow>
             Some ((if neg then - m else m) * (if 0 \<le> k then 10 ^ nat k else 1 / 10 ^ nat (- k)))
         | _ \<Rightarrow> None)"

subsection \<open>The inventory document\<close>

text \<open>
  A product is the dictionary the conversation builds: every key may be missing, and
  reading a missing key raises \<^verbatim>\<open>KeyError\<close>. The inventory is a Python \<^verbatim>\<open>dict\<close>
  from names to products: an association list with distinct keys, in insertion order
  (assignment to an existing key keeps its place, a new key goes to the end).
  The file \<^verbatim>\<open>inventario.json\<close> is absent, holds invalid JSON, or holds an inventory.
\<close>

datatype py_error = KeyError

record producto =
  k_nombre :: "string option"
  k_cantidad :: "int option"
  k_cantidad_inicial :: "int option"
  k_precio :: "rat option"
  k_categoria :: "string option"
  k_fecha_creacion :: "string option"

type_synonym inventario = "(string \<times> producto) list"

datatype archivo = Ausente | Invalido | Guardado inventario

definition cargar_inventario :: "archivo \<Rightarrow> inventario" where
  "cargar_inventario f = (case f of Ausente \<Rightarrow> [] | Invalido \<Rightarrow> [] | Guardado invent \<Rightarrow> invent)"

definition guardar_inventario :: "inventario \<Rightarrow> archivo" where
  "guardar_inventario invent = Guardado invent"

definition valor_producto :: "producto \<Rightarrow> py_error + rat" where
  "valor_producto p =
     (case k_precio p of
        None \<Rightarrow> Inl KeyError
      | Some pr \<Rightarrow> (case k_cantidad p of None \<Rightarrow> Inl KeyError | Some c \<Rightarrow> Inr (pr * of_int c)))"

fun sumar :: "producto list \<Rightarrow> py_error + rat" where
  "sumar [] = Inr 0"
| "sumar (p # ps) =
     (case valor_producto p of
        Inl e \<Rightarrow> Inl e
      | Inr v \<Rightarrow> (case sumar ps of Inl e \<Rightarrow> Inl e | Inr s \<Rightarrow> Inr (v + s)))"

definition calcular_inventario_total :: "archivo \<Rightarrow> py_error + rat" where
  "calcular_inventario_total f = sumar (map snd (cargar_inventario f))"

text \<open>\<^verbatim>\<open>producto.get('cantidad_inicial', c)\<close>: the stored initial quantity, else \<open>c\<close>.\<close>

definition get_cantidad_inicial :: "producto \<Rightarrow> int \<Rightarrow> int" where
  "get_cantidad_inicial p c = (case k_cantidad_inicial p of None \<Rightarrow> c | Some i \<Rightarrow> i)"

text \<open>One entry of the low-stock report: name, current quantity, limit.\<close>

fun bajo_stock :: "inventario \<Rightarrow> py_error + (string \<times> int \<times> rat) list" where
  "bajo_stock [] = Inr []"
| "bajo_stock ((nom, p) # invent) =
     (case k_cantidad p of
        None \<Rightarrow> Inl KeyError
      | Some cantidad_actual \<Rightarrow>
          let cantidad_ini = get_cantidad_inicial p cantidad_actual;
              limite = of_int cantidad_ini * (1 / 10)
          in (case bajo_stock invent of
                Inl e \<Rightarrow> Inl e
              | Inr rest \<Rightarrow>
                  Inr (if of_int cantidad_actual \<le> limite
                       then (nom, cantidad_actual, limite) # rest else rest)))"

definition obtener_productos_bajo_stock :: "archivo \<Rightarrow> py_error + (string \<times> int \<times> rat) list" where
  "obtener_productos_bajo_stock f = bajo_stock (cargar_inventario f)"

subsection \<open>Conversation states, replies and the session\<close>

datatype estado =
    MENU | INSERTAR_NOMBRE | INSERTAR_CANTIDAD | INSERTAR_PRECIO | INSERTAR_CATEGORIA
  | ACTUALIZAR_SELECCION | ACTUALIZAR_CANTIDAD | BORRAR_SELECCION

text \<open>
  The replies, one constructor for each message text of the source, carrying the values
  the text shows (a value formatted with \<^verbatim>\<open>:.2f\<close> is carried rounded).
\<close>

datatype respuesta =
    MsgMenu
  | MsgPedirNombre
  | MsgSinProductos
  | MsgListaActualizar "string list"
  | MsgListaBorrar "string list"
  | MsgCostoTotal rat
  | MsgSeguridad
  | MsgPedirCantidad
  | MsgPedirPrecio
  | MsgNumeroInvalido
  | MsgPedirCategoria
  | MsgPrecioInvalido
  | MsgAgregado string int rat string
  | MsgNoEncontrado
  | MsgSeleccionado string int
  | MsgActualizado string int
  | MsgAlerta string
  | MsgEliminado string
  | MsgInventarioVacio
  | MsgInventario "(string \<times> int \<times> rat \<times> string \<times> rat) list"
  | MsgStockSuficiente
  | MsgStockBajo "(string \<times> int \<times> rat) list"
  | MsgCancelada

record user_data =
  nuevo_producto :: "producto option"
  producto_actualizar :: "string option"

record mundo =
  db_file :: archivo
  datos :: user_data
  enviados :: "respuesta list"

definition clear :: user_data where
  "clear = \<lparr>nuevo_producto = None, producto_actualizar = None\<rparr>"

definition reply_text :: "respuesta \<Rightarrow> mundo \<Rightarrow> mundo" where
  "reply_text m w = w\<lparr>enviados := enviados w @ [m]\<rparr>"

subsection \<open>Handlers\<close>

text \<open>
  A handler takes the session's world and the message text and returns the new world
  together with the next state, or with the exception that escaped it. The effects made
  before an exception stay. The button texts are the UTF-8 bytes of the source literals.
\<close>

type_synonym paso = "mundo \<times> (py_error + estado)"

definition start :: "mundo \<Rightarrow> paso" where
  "start w = (reply_text MsgMenu w, Inr MENU)"

definition txt_insertar :: string where
  "txt_insertar = [CHR 0xF0, CHR 0x9F, CHR 0x93, CHR 0xA6] @ '' Insertar Producto''"

definition txt_actualizar :: string where
  "txt_actualizar = [CHR 0xF0, CHR 0x9F, CHR 0x94, CHR 0x84] @ '' Actualizar Producto''"

definition txt_borrar :: string where
  "txt_borrar =
     [CHR 0xF0, CHR 0x9F, CHR 0x97, CHR 0x91, CHR 0xEF, CHR 0xB8, CHR 0x8F] @ '' Borrar Producto''"

definition txt_ver :: string where
  "txt_ver = [CHR 0xF0, CHR 0x9F, CHR 0x93, CHR 0x8A] @ '' Ver Inventario''"

definition txt_stock :: string where
  "txt_stock = [CHR 0xE2, CHR 0x9A, CHR 0xA0, CHR 0xEF, CHR 0xB8, CHR 0x8F] @ '' Stock Bajo''"

definition txt_costo :: string where
  "txt_costo = [CHR 0xF0, CHR 0x9F, CHR 0x92, CHR 0xB0] @ '' Costo Total''"

definition txt_seguridad :: string where
  "txt_seguridad = [CHR 0xE2, CHR 0x9D, CHR 0x93] @ '' Seguridad de Datos''"

definition linea_inventario ::
  "string \<times> producto \<Rightarrow> py_error + (string \<times> int \<times> rat \<times> string \<times> rat)" where
  "linea_inventario np =
     (case (k_cantidad (snd np), k_precio (snd np), k_categoria (snd np)) of
        (Some c, Some pr, Some cat) \<Rightarrow>
          Inr (fst np, c, py_round pr 2, cat, py_round (of_int c * pr) 2)
      | _ \<Rightarrow> Inl KeyError)"

fun lineas_inventario ::
  "inventario \<Rightarrow> py_error + (string \<times> int \<times> rat \<times> string \<times> rat) list" where
  "lineas_inventario [] = Inr []"
| "lineas_inventario (np # rest) =
     (case linea_inventario np of
        Inl e \<Rightarrow> Inl e
      | Inr l \<Rightarrow> (case lineas_inventario rest of Inl e \<Rightarrow> Inl e | Inr ls \<Rightarrow> Inr (l # ls)))"

definition mostrar_inventario :: "mundo \<Rightarrow> py_error + mundo" where
  "mostrar_inventario w =
     (let inventario = cargar_inventario (db_file w)
      in if inventario = [] then Inr (reply_text MsgInventarioVacio w)
         else (case lineas_inventario inventario of
                 Inl e \<Rightarrow> Inl e
               | Inr ls \<Rightarrow> Inr (reply_text (MsgInventario ls) w)))"

definition verificar_stock_bajo :: "mundo \<Rightarrow> py_error + mundo" where
  "verificar_stock_bajo w =
     (case obtener_productos_bajo_stock (db_file w) of
        Inl e \<Rightarrow> Inl e
      | Inr productos_bajo \<Rightarrow>
          if productos_bajo = [] then Inr (reply_text MsgStockSuficiente w)
          else Inr (reply_text
                 (MsgStockBajo (map (\<lambda>(n, c, l). (n, c, py_round l 1)) productos_bajo)) w))"

definition explicar_seguridad :: "mundo \<Rightarrow> mundo" where
  "explicar_seguridad w = reply_text MsgSeguridad w"

definition menu_handler :: "mundo \<Rightarrow> string \<Rightarrow> paso" where
  "menu_handler w texto =
     (if texto = txt_insertar then (reply_text MsgPedirNombre w, Inr INSERTAR_NOMBRE)
      else if texto = txt_actualizar then
        (let inventario = cargar_inventario (db_file w)
         in if inventario = [] then (reply_text MsgSinProductos w, Inr MENU)
            else (reply_text (MsgListaActualizar (map fst inventario)) w, Inr ACTUALIZAR_SELECCION))
      else if texto = txt_borrar then
        (let inventario = cargar_inventario (db_file w)
         in if inventario = [] then (reply_text MsgSinProductos w, Inr MENU)
            else (reply_text (MsgListaBorrar (map fst inventario)) w, Inr BORRAR_SELECCION))
      else if texto = txt_ver then
        (case mostrar_inventario w of Inl e \<Rightarrow> (w, Inl e) | Inr w' \<Rightarrow> (w', Inr MENU))
      else if texto = txt_stock then
        (case verificar_stock_bajo w of Inl e \<Rightarrow> (w, Inl e) | Inr w' \<Rightarrow> (w', Inr MENU))
      else if texto = txt_costo then
        (case calcular_inventario_total (db_file w) of
           Inl e \<Rightarrow> (w, Inl e)
         | Inr t \<Rightarrow> (reply_text (MsgCostoTotal (py_round t 2)) w, Inr MENU))
      else if texto = txt_seguridad then (explicar_seguridad w, Inr MENU)
      else (w, Inr MENU))"

definition insertar_nombre :: "mundo \<Rightarrow> string \<Rightarrow> paso" where
  "insertar_nombre w texto =
     (reply_text MsgPedirCantidad
        (w\<lparr>datos := (datos w)\<lparr>nuevo_producto :=
             Some \<lparr>k_nombre = Some texto, k_cantidad = None, k_cantidad_inicial = None,
                   k_precio = None, k_categoria = None, k_fecha_creacion = None\<rparr>\<rparr>\<rparr>),
      Inr INSERTAR_CANTIDAD)"

definition insertar_cantidad :: "mundo \<Rightarrow> string \<Rightarrow> paso" where
  "insertar_cantidad w texto =
     (case py_int texto of
        None \<Rightarrow> (reply_text MsgNumeroInvalido w, Inr INSERTAR_CANTIDAD)
      | Some c \<Rightarrow>
          if c < 0 then (reply_text MsgNumeroInvalido w, Inr INSERTAR_CANTIDAD)
          else
            (case nuevo_producto (datos w) of
               None \<Rightarrow> (w, Inl KeyError)
             | Some d \<Rightarrow>
                 (reply_text MsgPedirPrecio
                    (w\<lparr>datos := (datos w)\<lparr>nuevo_producto :=
                         Some (d\<lparr>k_cantidad := Some c, k_cantidad_inicial := Some c\<rparr>)\<rparr>\<rparr>),
                  Inr INSERTAR_PRECIO)))"

definition insertar_precio :: "mundo \<Rightarrow> string \<Rightarrow> paso" where
  "insertar_precio w texto =
     (case py_float texto of
        None \<Rightarrow> (reply_text MsgPrecioInvalido w, Inr INSERTAR_PRECIO)
      | Some pr \<Rightarrow>
          if pr < 0 then (reply_text MsgPrecioInvalido w, Inr INSERTAR_PRECIO)
          else
            (case nuevo_producto (datos w) of
               None \<Rightarrow> (w, Inl KeyError)
             | Some d \<Rightarrow>
                 (reply_text MsgPedirCategoria
                    (w\<lparr>datos := (datos w)\<lparr>nuevo_producto := Some (d\<lparr>k_precio := Some pr\<rparr>)\<rparr>\<rparr>),
                  Inr INSERTAR_CATEGORIA)))"

text \<open>
  \<^verbatim>\<open>insertar_categoria\<close> stores the draft under its name with a plain dictionary
  assignment: there is no test for an existing name. \<open>ahora\<close> is the clock reading.
\<close>

definition insertar_categoria :: "mundo \<Rightarrow> string \<Rightarrow> string \<Rightarrow> paso" where
  "insertar_categoria w texto ahora =
     (case nuevo_producto (datos w) of
        None \<Rightarrow> (w, Inl KeyError)
      | Some d \<Rightarrow>
          let producto = d\<lparr>k_categoria := Some texto, k_fecha_creacion := Some ahora\<rparr>;
              w1 = w\<lparr>datos := (datos w)\<lparr>nuevo_producto := Some producto\<rparr>\<rparr>;
              inventario = cargar_inventario (db_file w1)
          in (case k_nombre producto of
                None \<Rightarrow> (w1, Inl KeyError)
              | Some nom \<Rightarrow>
                  let w2 = w1\<lparr>db_file := guardar_inventario (AList.update nom producto inventario)\<rparr>
                  in (case (k_cantidad producto, k_precio producto) of
                        (Some c, Some pr) \<Rightarrow>
                          ((reply_text (MsgAgregado nom c (py_round pr 2) texto) w2)\<lparr>datos := clear\<rparr>,
                           Inr MENU)
                      | _ \<Rightarrow> (w2, Inl KeyError))))"

definition actualizar_seleccion :: "mundo \<Rightarrow> string \<Rightarrow> paso" where
  "actualizar_seleccion w texto =
     (let inventario = cargar_inventario (db_file w)
      in case map_of inventario texto of
           None \<Rightarrow> (reply_text MsgNoEncontrado w, Inr ACTUALIZAR_SELECCION)
         | Some producto \<Rightarrow>
             let w1 = w\<lparr>datos := (datos w)\<lparr>producto_actualizar := Some texto\<rparr>\<rparr>
             in (case k_cantidad producto of
                   None \<Rightarrow> (w1, Inl KeyError)
                 | Some c \<Rightarrow> (reply_text (MsgSeleccionado texto c) w1, Inr ACTUALIZAR_CANTIDAD)))"

definition actualizar_cantidad :: "mundo \<Rightarrow> string \<Rightarrow> paso" where
  "actualizar_cantidad w texto =
     (case py_int texto of
        None \<Rightarrow> (reply_text MsgNumeroInvalido w, Inr ACTUALIZAR_CANTIDAD)
      | Some nueva_cantidad \<Rightarrow>
          if nueva_cantidad < 0 then (reply_text MsgNumeroInvalido w, Inr ACTUALIZAR_CANTIDAD)
          else
            let inventario = cargar_inventario (db_file w)
            in (case producto_actualizar (datos w) of
                  None \<Rightarrow> (w, Inl KeyError)
                | Some nom \<Rightarrow>
                    (case map_of inventario nom of
                       None \<Rightarrow> (w, Inl KeyError)
                     | Some producto \<Rightarrow>
                         let producto' = producto\<lparr>k_cantidad := Some nueva_cantidad\<rparr>;
                             w1 = w\<lparr>db_file :=
                                     guardar_inventario (AList.update nom producto' inventario)\<rparr>;
                             w2 = reply_text (MsgActualizado nom nueva_cantidad) w1;
                             cantidad_ini = get_cantidad_inicial producto' nueva_cantidad;
                             w3 = (if (of_int nueva_cantidad :: rat) \<le> of_int cantidad_ini * (1 / 10)
                                   then reply_text (MsgAlerta nom) w2 else w2)
                         in (w3\<lparr>datos := clear\<rparr>, Inr MENU))))"

definition borrar_producto :: "mundo \<Rightarrow> string \<Rightarrow> paso" where
  "borrar_producto w texto =
     (let inventario = cargar_inventario (db_file w)
      in case map_of inventario texto of
           None \<Rightarrow> (reply_text MsgNoEncontrado w, Inr BORRAR_SELECCION)
         | Some _ \<Rightarrow>
             (reply_text (MsgEliminado texto)
                (w\<lparr>db_file := guardar_inventario (AList.delete texto inventario)\<rparr>),
              Inr MENU))"

definition cancelar :: "mundo \<Rightarrow> paso" where
  "cancelar w = start ((reply_text MsgCancelada w)\<lparr>datos := clear\<rparr>)"

subsection \<open>The conversation handler\<close>

text \<open>
  The framework tells a command (\<^verbatim>\<open>/name\<close>) from plain text. Outside a conversation
  only the entry point \<^verbatim>\<open>/start\<close> is heard. Inside one, plain text goes to the handler
  of the current state and \<^verbatim>\<open>/cancelar\<close> to the fallback; anything else is ignored.
  When a handler raises, the state stays as it was.
\<close>

datatype update = Texto string | Comando string

definition manejar :: "estado \<Rightarrow> mundo \<Rightarrow> string \<Rightarrow> string \<Rightarrow> paso" where
  "manejar s w texto ahora =
     (case s of
        MENU \<Rightarrow> menu_handler w texto
      | INSERTAR_NOMBRE \<Rightarrow> insertar_nombre w texto
      | INSERTAR_CANTIDAD \<Rightarrow> insertar_cantidad w texto
      | INSERTAR_PRECIO \<Rightarrow> insertar_precio w texto
      | INSERTAR_CATEGORIA \<Rightarrow> insertar_categoria w texto ahora
      | ACTUALIZAR_SELECCION \<Rightarrow> actualizar_seleccion w texto
      | ACTUALIZAR_CANTIDAD \<Rightarrow> actualizar_cantidad w texto
      | BORRAR_SELECCION \<Rightarrow> borrar_producto w texto)"

definition terminar :: "estado option \<Rightarrow> paso \<Rightarrow> estado option \<times> mundo" where
  "terminar s r = (case snd r of Inl _ \<Rightarrow> (s, fst r) | Inr s' \<Rightarrow> (Some s', fst r))"

definition conv_handler :: "estado option \<times> mundo \<Rightarrow> update \<Rightarrow> string \<Rightarrow> estado option \<times> mundo" where
  "conv_handler ses u ahora =
     (case fst ses of
        None \<Rightarrow>
          (case u of
             Comando c \<Rightarrow> if c = ''start'' then terminar None (start (snd ses)) else ses
           | Texto _ \<Rightarrow> ses)
      | Some s \<Rightarrow>
          (case u of
             Texto t \<Rightarrow> terminar (Some s) (manejar s (snd ses) t ahora)
           | Comando c \<Rightarrow>
               if c = ''cancelar'' then terminar (Some s) (cancelar (snd ses)) else ses))"

text \<open>A conversation is the run of \<open>conv_handler\<close> over the updates, each with its clock reading.\<close>

fun conversar ::
  "estado option \<times> mundo \<Rightarrow> (update \<times> string) list \<Rightarrow> estado option \<times> mundo" where
  "conversar ses [] = ses"
| "conversar ses (u # us) = conversar (conv_handler ses (fst u) (snd u)) us"

definition mundo_inicial :: "archivo \<Rightarrow> mundo" where
  "mundo_inicial f = \<lparr>db_file = f, datos = clear, enviados = []\<rparr>"

section \<open>Example states\<close>





definition db_pan_arroz :: database where
  "db_pan_arroz =
     snd (insertar_producto
            (snd (insertar_producto init_db ''Pan'' 10 1 (Some ''Dulces'') ''2024-01-01 09:00:00''))
            ''Arroz'' 100 (6 / 5) (Some ''Granos'') ''2024-01-01 10:00:00'')"

definition ver_pan_arroz :: "(update \<times> string) list" where
  "ver_pan_arroz =
     [(Comando ''start'', ''t0''),
      (Texto txt_insertar, ''t1''), (Texto ''Pan'', ''t2''), (Texto ''10'', ''t3''),
      (Texto ''1'', ''t4''), (Texto ''Dulces'', ''t5''),
      (Texto txt_insertar, ''t6''), (Texto ''Arroz'', ''t7''), (Texto ''100'', ''t8''),
      (Texto ''1.20'', ''t9''), (Texto ''Granos'', ''t10''),
      (Texto txt_ver, ''t11'')]"






definition inventario_a_b :: inventario where
  "inventario_a_b =
     [(''A'', \<lparr>k_nombre = Some ''A'', k_cantidad = Some 5, k_cantidad_inicial = Some 100,
              k_precio = Some 1, k_categoria = Some ''Granos'', k_fecha_creacion = Some ''t5''\<rparr>),
      (''M'', \<lparr>k_nombre = Some ''M'', k_cantidad = Some 50, k_cantidad_inicial = Some 100,
              k_precio = Some 1, k_categoria = Some ''Granos'', k_fecha_creacion = Some ''t6''\<rparr>),
      (''B'', \<lparr>k_nombre = Some ''B'', k_cantidad = Some 1, k_cantidad_inicial = Some 100,
              k_precio = Some 1, k_categoria = Some ''Granos'', k_fecha_creacion = Some ''t10''\<rparr>)]"


text \<open>A product, and a world, in which no quantity and no price is negative.\<close>

definition no_negativo :: "producto \<Rightarrow> bool" where
  "no_negativo p =
     ((case k_cantidad p of None \<Rightarrow> True | Some c \<Rightarrow> 0 \<le> c) \<and>
      (case k_precio p of None \<Rightarrow> True | Some pr \<Rightarrow> 0 \<le> pr))"

definition sin_negativos :: "mundo \<Rightarrow> bool" where
  "sin_negativos w =
     (list_all no_negativo (map snd (cargar_inventario (db_file w))) \<and>
      (case nuevo_producto (datos w) of None \<Rightarrow> True | Some d \<Rightarrow> no_negativo d))"




definition iniciales :: "mundo \<Rightarrow> (string \<times> int option) list" where
  "iniciales w = map (\<lambda>(n, p). (n, k_cantidad_inicial p)) (cargar_inventario (db_file w))"









section \<open>Properties\<close>

subsection \<open>Duplicate names\<close>




subsection \<open>Cancelling\<close>

text \<open>
  C9. In every state of a conversation, \<^verbatim>\<open>/cancelar\<close> leads to \<open>MENU\<close>, empties the
  session's draft data, sends the cancellation notice (followed by the menu), and leaves
  the inventory file as it was: nothing but \<open>datos\<close> and \<open>enviados\<close> changes.
\<close>

theorem cancelar_vuelve_a_menu:
  "conv_handler (Some s, w) (Comando ''cancelar'') ahora =
     (Some MENU, w\<lparr>datos := clear, enviados := enviados w @ [MsgCancelada, MsgMenu]\<rparr>) \<and>
   db_file (snd (conv_handler (Some s, w) (Comando ''cancelar'') ahora)) = db_file w"
  by (simp add: conv_handler_def terminar_def cancelar_def start_def reply_text_def)

subsection \<open>A missing or unreadable inventory file\<close>


subsection \<open>Listing\<close>

lemma lineas_inventario_nombres:
  "lineas_inventario invent = Inr ls \<Longrightarrow> map fst ls = map fst invent"
  by (induction invent arbitrary: ls)
     (auto simp: linea_inventario_def split: sum.splits option.splits)

text \<open>
  C7 (amended). \<open>listar_productos\<close> of the relational backend returns all rows, sorted by
  name in ascending byte order, and the empty list for an empty table. The inventory
  report of bot.py, \<open>mostrar_inventario\<close>, sends a notice and does not fail when the
  inventory is empty; otherwise it lists all products in the order the document stores
  them, which is the order of insertion, not the order of the names.
\<close>

theorem listar_productos_ordenado:
  "sorted (map fst (listar_productos db)) \<and>
   mset (listar_productos db) =
     mset (map (\<lambda>r. (nombre r, cantidad r, cantidad_inicial r, precio r, categoria r))
             (productos db)) \<and>
   listar_productos (db\<lparr>productos := []\<rparr>) = [] \<and>
   mostrar_inventario (w\<lparr>db_file := Guardado []\<rparr>) =
     Inr (reply_text MsgInventarioVacio (w\<lparr>db_file := Guardado []\<rparr>)) \<and>
   (cargar_inventario (db_file w) \<noteq> [] \<and> mostrar_inventario w = Inr w' \<longrightarrow>
      (\<exists>ls. w' = reply_text (MsgInventario ls) w \<and>
            map fst ls = map fst (cargar_inventario (db_file w))))"
proof -
  have a: "sorted (map fst (listar_productos db))"
    by (simp add: listar_productos_def comp_def)
  have b: "mset (listar_productos db) =
      mset (map (\<lambda>r. (nombre r, cantidad r, cantidad_inicial r, precio r, categoria r))
              (productos db))"
    by (simp add: listar_productos_def)
  have c: "listar_productos (db\<lparr>productos := []\<rparr>) = []"
    by (simp add: listar_productos_def)
  have d: "mostrar_inventario (w\<lparr>db_file := Guardado []\<rparr>) =
      Inr (reply_text MsgInventarioVacio (w\<lparr>db_file := Guardado []\<rparr>))"
    by (simp add: mostrar_inventario_def cargar_inventario_def)
  have e: "\<exists>ls. w' = reply_text (MsgInventario ls) w \<and>
      map fst ls = map fst (cargar_inventario (db_file w))"
    if "cargar_inventario (db_file w) \<noteq> []" "mostrar_inventario w = Inr w'"
    using that
    by (auto simp: mostrar_inventario_def dest: lineas_inventario_nombres split: sum.splits)
  from a b c d e show ?thesis by blast
qed

text \<open>C7, witness: a table and a document that both hold \<open>Pan\<close>, then \<open>Arroz\<close>.\<close>

theorem listar_productos_ordenado_witness:
  "map fst (listar_productos db_pan_arroz) = [''Arroz'', ''Pan''] \<and>
   sorted (map fst (listar_productos db_pan_arroz)) \<and>
   cargar_inventario (db_file (mundo_inicial (Guardado inventario_a_b))) \<noteq> [] \<and>
   (\<exists>ls. mostrar_inventario (mundo_inicial (Guardado inventario_a_b)) =
           Inr (reply_text (MsgInventario ls) (mundo_inicial (Guardado inventario_a_b))) \<and>
         map fst ls = [''A'', ''M'', ''B''])"
proof -
  let ?w = "mundo_inicial (Guardado inventario_a_b)"
  let ?w' = "reply_text
      (MsgInventario [(''A'', 5, 1, ''Granos'', 5), (''M'', 50, 1, ''Granos'', 50),
                      (''B'', 1, 1, ''Granos'', 1)]) ?w"
  have n: "map fst (listar_productos db_pan_arroz) = [''Arroz'', ''Pan'']"
    by code_simp
  have h1: "cargar_inventario (db_file ?w) \<noteq> []"
    by code_simp
  have h2: "mostrar_inventario ?w = Inr ?w'"
    by code_simp
  have k: "map fst (cargar_inventario (db_file ?w)) = [''A'', ''M'', ''B'']"
    by code_simp
  from listar_productos_ordenado [of db_pan_arroz ?w ?w'] h1 h2
  have s: "sorted (map fst (listar_productos db_pan_arroz))"
    and "\<exists>ls. ?w' = reply_text (MsgInventario ls) ?w \<and>
           map fst ls = map fst (cargar_inventario (db_file ?w))"
    by blast+
  then have "\<exists>ls. mostrar_inventario ?w = Inr (reply_text (MsgInventario ls) ?w) \<and>
      map fst ls = [''A'', ''M'', ''B'']"
    using h2 k by auto
  with n s h1 show ?thesis by blast
qed

text \<open>
  C7, counterexample: after \<open>Pan\<close> and then \<open>Arroz\<close> were added in the conversation, the
  inventory report lists \<open>Pan\<close> before \<open>Arroz\<close>: it is not sorted by name.
\<close>

theorem mostrar_inventario_sin_ordenar:
  "last (enviados (snd (conversar (None, mundo_inicial Ausente) ver_pan_arroz))) =
     MsgInventario [(''Pan'', 10, 1, ''Dulces'', 10), (''Arroz'', 100, 6 / 5, ''Granos'', 120)] \<and>
   \<not> sorted [''Pan'', ''Arroz'']"
  by code_simp

subsection \<open>Low stock\<close>








subsection \<open>Total value\<close>













subsection \<open>Reading the quantity\<close>




subsection \<open>Negative values\<close>




lemma sn_reply [simp]: "sin_negativos (reply_text m w) = sin_negativos w"
  by (simp add: sin_negativos_def reply_text_def)












lemma snd_terminar [simp]: "snd (terminar s r) = fst r"
  by (simp add: terminar_def split: sum.splits)







subsection \<open>The initial quantity\<close>








lemma in_reply [simp]: "iniciales (reply_text m w) = iniciales w"
  by (simp add: iniciales_def reply_text_def)















subsection \<open>The two backends\<close>






















end
